theory Spec2Isabelle
  imports Main "HOL-Library.Word"
begin

section \<open>Python values, errors and dictionaries\<close>

text \<open>
  The values that flow through the Bedrock instrumentation: keyword arguments, parsed JSON
  bodies, context values and module-level objects. A \<open>str\<close> and a \<open>bytes\<close> value are
  both character lists (code points below 256); a float is carried as its 64-bit pattern,
  since the code only passes floats along; \<open>PObject\<close> is an opaque object (a function, a
  module, a class instance), named for readability.
\<close>

datatype pyval =
    PNone
  | PBool bool
  | PInt int
  | PFloat "64 word"
  | PStr string
  | PBytes string
  | PList "pyval list"
  | PDict "(string \<times> pyval) list"
  | PObject string

text \<open>Every exception the code under study can meet is a value.\<close>

datatype py_error =
    ClientError string
  | NameError string
  | TypeError
  | ValueError
  | AttributeError
  | JSONDecodeError
  | UnicodeDecodeError

text \<open>Python truthiness, as used by \<open>if\<close>, \<open>and\<close> and \<open>or\<close>.\<close>

fun truthy :: "pyval \<Rightarrow> bool" where
  "truthy PNone = False"
| "truthy (PBool b) = b"
| "truthy (PInt i) = (i \<noteq> 0)"
| "truthy (PFloat w) = (w \<noteq> 0 \<and> w \<noteq> 0x8000000000000000)"
| "truthy (PStr s) = (s \<noteq> [])"
| "truthy (PBytes s) = (s \<noteq> [])"
| "truthy (PList xs) = (xs \<noteq> [])"
| "truthy (PDict kvs) = (kvs \<noteq> [])"
| "truthy (PObject n) = True"

text \<open>\<open>a or b\<close>: the first operand when it is truthy, the second otherwise.\<close>

definition py_or :: "pyval \<Rightarrow> pyval \<Rightarrow> pyval" where
  "py_or a b = (if truthy a then a else b)"

text \<open>Keyword arguments are a dictionary with string keys, kept as an association list;
  \<open>kwargs.get(k)\<close> is \<open>None\<close> for a missing key.\<close>

type_synonym kwargs = "(string \<times> pyval) list"

definition dict_get :: "kwargs \<Rightarrow> string \<Rightarrow> pyval" where
  "dict_get kvs k = (case map_of kvs k of None \<Rightarrow> PNone | Some v \<Rightarrow> v)"

text \<open>\<open>context_api.get_value(key)\<close>: the value stored under the key in the current
  context, or \<open>None\<close>.\<close>

definition get_value :: "(string \<rightharpoonup> pyval) \<Rightarrow> string \<Rightarrow> pyval" where
  "get_value c key = (case c key of None \<Rightarrow> PNone | Some v \<Rightarrow> v)"

text \<open>\<open>v.get(k)\<close> on a value: only a dictionary has the method.\<close>

fun py_get :: "pyval \<Rightarrow> string \<Rightarrow> py_error + pyval" where
  "py_get (PDict kvs) k = Inr (case map_of kvs k of None \<Rightarrow> PNone | Some v \<Rightarrow> v)"
| "py_get _ k = Inl AttributeError"

text \<open>\<open>os.getenv(name)\<close>: the variable's string, or \<open>None\<close>.\<close>

definition getenv :: "(string \<rightharpoonup> string) \<Rightarrow> string \<Rightarrow> pyval" where
  "getenv environ name = (case environ name of None \<Rightarrow> PNone | Some s \<Rightarrow> PStr s)"

text \<open>\<open>str.lower()\<close>: the letters A to Z are mapped to a to z. (On code points beyond
  ASCII Python's \<open>lower\<close> never produces one of the letters t, r, u, e, so the comparison
  with \<open>"true"\<close> below is not affected by leaving them alone.)\<close>

definition lower_char :: "char \<Rightarrow> char" where
  "lower_char c =
     (let n = (of_char c :: nat) in if 65 \<le> n \<and> n \<le> 90 then char_of (n + 32) else c)"

fun py_lower :: "pyval \<Rightarrow> py_error + pyval" where
  "py_lower (PStr s) = Inr (PStr (map lower_char s))"
| "py_lower _ = Inl AttributeError"

section \<open>External collaborators\<close>

text \<open>
  The constants of the semantic-convention package, the suppression key of the
  instrumentation utilities and the JSON parser of the standard library are not part of the
  instrumented module; they are taken as parameters. The parser comes as two functions:
  \<open>loads\<close> is the parse of a bytes value (which is decoded first, so that it may also
  raise UnicodeDecodeError), \<open>loads_str\<close> the parse of a text value.
\<close>

record deps =
  LLM_VENDOR :: string
  LLM_REQUEST_MODEL :: string
  LLM_REQUEST_TYPE :: string
  LLM_TOP_P :: string
  LLM_TEMPERATURE :: string
  LLM_REQUEST_MAX_TOKENS :: string
  LLM_PROMPTS :: string
  LLM_COMPLETIONS :: string
  COMPLETION_value :: string
  SUPPRESS_INSTRUMENTATION_KEY :: string
  loads :: "string \<Rightarrow> py_error + pyval"
  loads_str :: "string \<Rightarrow> py_error + pyval"

text \<open>\<open>json.loads(s)\<close>: a text is parsed, bytes are decoded and parsed, any other
  argument is a TypeError.\<close>

fun json_loads :: "deps \<Rightarrow> pyval \<Rightarrow> py_error + pyval" where
  "json_loads d (PStr s) = loads_str d s"
| "json_loads d (PBytes s) = loads d s"
| "json_loads d _ = Inl TypeError"

text \<open>The process environment and the current tracing context.\<close>

record world =
  environ :: "string \<rightharpoonup> string"
  ctx :: "string \<rightharpoonup> pyval"

text \<open>A response of the client: the streaming body (the chunks it has still to deliver;
  \<open>None\<close> when the response has no \<open>body\<close> entry) and its other entries.\<close>

record response =
  body :: "string list option"
  entries :: "(string \<times> pyval) list"

section \<open>Response-stream re-assembly\<close>

text \<open>The loop of \<open>_get_body\<close>: the buffer starts as \<open>None\<close>, takes the first chunk and
  is extended by every later one.\<close>

fun get_body_loop :: "string option \<Rightarrow> string list \<Rightarrow> string option" where
  "get_body_loop buffer [] = buffer"
| "get_body_loop buffer (chunk # chunks) =
     get_body_loop (case buffer of None \<Rightarrow> Some chunk | Some b \<Rightarrow> Some (b @ chunk)) chunks"

text \<open>\<open>_get_body(response, content_type)\<close>. Iterating the body's chunks drains the stream:
  the response is returned with the body it has afterwards.\<close>

definition get_body :: "deps \<Rightarrow> response \<Rightarrow> pyval \<Rightarrow> (py_error + pyval) \<times> response" where
  "get_body d resp content_type =
     (case body resp of
        None \<Rightarrow> (Inl AttributeError, resp)
      | Some chunks \<Rightarrow>
          (let buffer = get_body_loop None chunks;
               resp' = resp\<lparr>body := Some []\<rparr>
           in if content_type = PStr ''application/json''
              then (json_loads d (case buffer of None \<Rightarrow> PNone | Some b \<Rightarrow> PBytes b), resp')
              else if content_type = PStr ''application/xml''
              then (Inr PNone, resp')
              else (Inr PNone, resp')))"

section \<open>Observable actions and the tracer\<close>

text \<open>
  What a call does besides returning: it starts and ends spans, sets span attributes, prints,
  and reaches the underlying client. A computation returns its outcome (an error or a value)
  together with the actions it performed, in order.
\<close>

datatype span_kind = INTERNAL | SERVER | CLIENT | PRODUCER | CONSUMER

datatype event =
    SpanStart string span_kind
  | SpanEnd
  | SetAttribute string pyval
  | Print "pyval list"
  | ClientCall "pyval list" kwargs

type_synonym 'a res = "(py_error + 'a) \<times> event list"

definition pure :: "'a \<Rightarrow> 'a res" where
  "pure x = (Inr x, [])"

definition lift :: "py_error + 'a \<Rightarrow> 'a res" where
  "lift r = (r, [])"

definition emit :: "event \<Rightarrow> unit res" where
  "emit ev = (Inr (), [ev])"

text \<open>Sequencing: an error ends the computation, keeping the actions performed so far.\<close>

definition bind_res :: "'a res \<Rightarrow> ('a \<Rightarrow> 'b res) \<Rightarrow> 'b res" where
  "bind_res m f =
     (case m of
        (Inl e, evs) \<Rightarrow> (Inl e, evs)
      | (Inr x, evs) \<Rightarrow> (case f x of (r, evs') \<Rightarrow> (r, evs @ evs')))"

definition then_res :: "unit res \<Rightarrow> 'b res \<Rightarrow> 'b res" where
  "then_res m n = bind_res m (\<lambda>_. n)"

text \<open>The tracer decides, per span, whether the span records (its sampler; a tracer without
  a configured provider hands out spans that do not record).\<close>

record tracer =
  sampler :: "string \<Rightarrow> span_kind \<Rightarrow> bool"

record span =
  is_recording :: bool

text \<open>\<open>with tracer.start_as_current_span(name, kind=kind) as span: block\<close>. The context
  manager starts the span, runs the block and ends the span when the block is left, by
  return or by exception; an exception of the block is re-raised as it is.\<close>

definition with_span :: "tracer \<Rightarrow> string \<Rightarrow> span_kind \<Rightarrow> (span \<Rightarrow> 'a res) \<Rightarrow> 'a res" where
  "with_span tr name kind block =
     (case block \<lparr>is_recording = sampler tr name kind\<rparr> of
        (r, evs) \<Rightarrow> (r, [SpanStart name kind] @ evs @ [SpanEnd]))"

text \<open>A method of a client: called in a world with positional and keyword arguments.\<close>

type_synonym 'r py_method = "world \<Rightarrow> pyval list \<Rightarrow> kwargs \<Rightarrow> 'r res"

text \<open>The method of an uninstrumented client: one call to the service, with the outcome
  the service gives.\<close>

definition client_method :: "(pyval list \<Rightarrow> kwargs \<Rightarrow> py_error + 'r) \<Rightarrow> 'r py_method" where
  "client_method service w args kwargs = (service args kwargs, [ClientCall args kwargs])"

record client =
  invoke_model :: "response py_method"
  attributes :: "(string \<times> pyval) list"

section \<open>The instrumented module\<close>

text \<open>The names bound at module level (imports, assignments, function and class
  definitions). A name that is neither local, nor bound here, nor a builtin raises
  NameError when it is read.\<close>

definition module_names :: "string list" where
  "module_names =
     [''wraps'', ''tee'', ''json'', ''logging'', ''os'', ''Collection'',
      ''wrap_function_wrapper'', ''context_api'', ''get_tracer'', ''SpanKind'', ''Status'',
      ''StatusCode'', ''BaseInstrumentor'', ''_SUPPRESS_INSTRUMENTATION_KEY'', ''unwrap'',
      ''SpanAttributes'', ''LLMRequestTypeValues'', ''__version__'', ''StreamingBody'',
      ''logger'', ''_instruments'', ''WRAPPED_METHODS'', ''should_send_prompts'',
      ''_set_span_attribute'', ''_with_tracer_wrapper'', ''_wrap'',
      ''_instrumented_model_invoke'', ''_get_body'', ''_set_cohere_span_attributes'',
      ''_set_anthropic_span_attributes'', ''_set_ai21_span_attributes'',
      ''_set_llama_span_attributes'', ''BedrockInstrumentor'']"

definition load_global :: "string \<Rightarrow> py_error + pyval" where
  "load_global n = (if n \<in> set module_names then Inr (PObject n) else Inl (NameError n))"

text \<open>\<open>should_send_prompts()\<close>: the value of
  \<open>(os.getenv("TRACELOOP_TRACE_CONTENT") or "true").lower() == "true" or
  context_api.get_value("override_enable_content_tracing")\<close>.\<close>

definition should_send_prompts :: "world \<Rightarrow> py_error + pyval" where
  "should_send_prompts w =
     (case py_lower (py_or (getenv (environ w) ''TRACELOOP_TRACE_CONTENT'') (PStr ''true'')) of
        Inl e \<Rightarrow> Inl e
      | Inr l \<Rightarrow>
          Inr (py_or (PBool (l = PStr ''true''))
                 (get_value (ctx w) ''override_enable_content_tracing'')))"

text \<open>\<open>_set_span_attribute(span, name, value)\<close>.\<close>

definition set_span_attribute :: "span \<Rightarrow> string \<Rightarrow> pyval \<Rightarrow> unit res" where
  "set_span_attribute sp name v =
     (if v \<noteq> PNone then (if v \<noteq> PStr [] then emit (SetAttribute name v) else pure ())
      else pure ())"

text \<open>The four vendor tables. Each argument \<open>request_body.get(k)\<close> is evaluated just
  before the call that takes it.\<close>

definition set_cohere_span_attributes :: "deps \<Rightarrow> span \<Rightarrow> pyval \<Rightarrow> unit res" where
  "set_cohere_span_attributes d sp request_body =
     then_res (set_span_attribute sp (LLM_REQUEST_TYPE d) (PStr (COMPLETION_value d)))
    (bind_res (lift (py_get request_body ''p'')) (\<lambda>v1.
     then_res (set_span_attribute sp (LLM_TOP_P d) v1)
    (bind_res (lift (py_get request_body ''temperature'')) (\<lambda>v2.
     then_res (set_span_attribute sp (LLM_TEMPERATURE d) v2)
    (bind_res (lift (py_get request_body ''max_tokens'')) (\<lambda>v3.
     set_span_attribute sp (LLM_REQUEST_MAX_TOKENS d) v3))))))"

definition set_anthropic_span_attributes :: "deps \<Rightarrow> span \<Rightarrow> pyval \<Rightarrow> unit res" where
  "set_anthropic_span_attributes d sp request_body =
     then_res (set_span_attribute sp (LLM_REQUEST_TYPE d) (PStr (COMPLETION_value d)))
    (bind_res (lift (py_get request_body ''top_p'')) (\<lambda>v1.
     then_res (set_span_attribute sp (LLM_TOP_P d) v1)
    (bind_res (lift (py_get request_body ''temperature'')) (\<lambda>v2.
     then_res (set_span_attribute sp (LLM_TEMPERATURE d) v2)
    (bind_res (lift (py_get request_body ''max_tokens_to_sample'')) (\<lambda>v3.
     set_span_attribute sp (LLM_REQUEST_MAX_TOKENS d) v3))))))"

definition set_ai21_span_attributes :: "deps \<Rightarrow> span \<Rightarrow> pyval \<Rightarrow> unit res" where
  "set_ai21_span_attributes d sp request_body =
     then_res (set_span_attribute sp (LLM_REQUEST_TYPE d) (PStr (COMPLETION_value d)))
    (bind_res (lift (py_get request_body ''topP'')) (\<lambda>v1.
     then_res (set_span_attribute sp (LLM_TOP_P d) v1)
    (bind_res (lift (py_get request_body ''temperature'')) (\<lambda>v2.
     then_res (set_span_attribute sp (LLM_TEMPERATURE d) v2)
    (bind_res (lift (py_get request_body ''maxTokens'')) (\<lambda>v3.
     set_span_attribute sp (LLM_REQUEST_MAX_TOKENS d) v3))))))"

definition set_llama_span_attributes :: "deps \<Rightarrow> span \<Rightarrow> pyval \<Rightarrow> unit res" where
  "set_llama_span_attributes d sp request_body =
     then_res (set_span_attribute sp (LLM_REQUEST_TYPE d) (PStr (COMPLETION_value d)))
    (bind_res (lift (py_get request_body ''top_p'')) (\<lambda>v1.
     then_res (set_span_attribute sp (LLM_TOP_P d) v1)
    (bind_res (lift (py_get request_body ''temperature'')) (\<lambda>v2.
     then_res (set_span_attribute sp (LLM_TEMPERATURE d) v2)
    (bind_res (lift (py_get request_body ''max_gen_len'')) (\<lambda>v3.
     set_span_attribute sp (LLM_REQUEST_MAX_TOKENS d) v3))))))"

text \<open>Iteration over a value, as \<open>enumerate\<close> and tuple unpacking do it: a list gives its
  items, a string its characters, bytes their codes, a dictionary its keys; the other values
  are not iterable.\<close>

fun py_iter :: "pyval \<Rightarrow> py_error + pyval list" where
  "py_iter (PList xs) = Inr xs"
| "py_iter (PStr s) = Inr (map (\<lambda>c. PStr [c]) s)"
| "py_iter (PBytes s) = Inr (map (\<lambda>c. PInt (of_char c)) s)"
| "py_iter (PDict kvs) = Inr (map (\<lambda>kv. PStr (fst kv)) kvs)"
| "py_iter _ = Inl TypeError"

text \<open>\<open>(a, b) = v\<close>: exactly two items, a ValueError otherwise.\<close>

definition unpack2 :: "pyval \<Rightarrow> py_error + (pyval \<times> pyval)" where
  "unpack2 v =
     (case py_iter v of
        Inl e \<Rightarrow> Inl e
      | Inr items \<Rightarrow> (case items of [a, b] \<Rightarrow> Inr (a, b) | _ \<Rightarrow> Inl ValueError))"

text \<open>The decimal digits of an index, for the formatted attribute names.\<close>

fun str_nat :: "nat \<Rightarrow> string" where
  "str_nat n =
     (if n < 10 then [char_of (48 + n)] else str_nat (n div 10) @ [char_of (48 + n mod 10)])"

text \<open>The loop over \<open>enumerate(response_body.get("generations"))\<close>.\<close>

definition completion_step :: "deps \<Rightarrow> span \<Rightarrow> nat \<Rightarrow> pyval \<Rightarrow> unit res" where
  "completion_step d sp i generation =
     bind_res (lift (py_get generation ''text'')) (\<lambda>t.
     then_res (emit (Print [PStr (str_nat i @ '':''), t]))
    (bind_res (lift (py_get generation ''text'')) (\<lambda>t'.
     set_span_attribute sp (LLM_COMPLETIONS d @ ''.'' @ str_nat i @ ''.content'') t')))"

fun completions_loop :: "deps \<Rightarrow> span \<Rightarrow> nat \<Rightarrow> pyval list \<Rightarrow> unit res" where
  "completions_loop d sp i [] = pure ()"
| "completions_loop d sp i (generation # rest) =
     then_res (completion_step d sp i generation) (completions_loop d sp (Suc i) rest)"

text \<open>\<open>with_instrumentation(*args, **kwargs)\<close>, the closure that
  \<open>_instrumented_model_invoke(fn, tracer)\<close> returns. The name \<open>modelId\<close> in the test of
  line 89 is read as a global. \<open>_get_body\<close> works on the response object itself, so the
  response that is returned is the one it leaves behind.\<close>

definition with_instrumentation ::
  "deps \<Rightarrow> response py_method \<Rightarrow> tracer \<Rightarrow> response py_method" where
  "with_instrumentation d fn tr w args kwargs =
     with_span tr ''bedrock.completion'' CLIENT (\<lambda>sp.
       bind_res (fn w args kwargs) (\<lambda>resp.
       bind_res (lift (json_loads d (dict_get kwargs ''body''))) (\<lambda>request_body.
       case get_body d resp (dict_get kwargs ''accept'') of (rb, resp') \<Rightarrow>
       bind_res (lift rb) (\<lambda>response_body.
       bind_res (lift (if is_recording sp then load_global ''modelId''
                       else Inr (PBool False))) (\<lambda>c.
       then_res
         (if truthy c then
            bind_res (lift (unpack2 (dict_get kwargs ''modelId''))) (\<lambda>(vendor, model).
            then_res (set_span_attribute sp (LLM_VENDOR d) vendor)
           (then_res (set_span_attribute sp (LLM_REQUEST_MODEL d) model)
           (then_res
              (if vendor = PStr ''cohere'' then set_cohere_span_attributes d sp request_body
               else if vendor = PStr ''anthropic''
               then set_anthropic_span_attributes d sp request_body
               else if vendor = PStr ''ai21'' then set_ai21_span_attributes d sp request_body
               else if vendor = PStr ''meta'' then set_llama_span_attributes d sp request_body
               else pure ())
           (bind_res (lift (should_send_prompts w)) (\<lambda>send.
            if truthy send then
              bind_res (lift (py_get request_body ''prompt'')) (\<lambda>prompt.
              then_res (set_span_attribute sp (LLM_PROMPTS d @ ''.0.user'') prompt)
             (bind_res (lift (py_get response_body ''generations'')) (\<lambda>gens.
              bind_res (lift (py_iter gens)) (\<lambda>generations.
              completions_loop d sp 0 generations))))
            else pure ())))))
          else pure ())
         (pure resp'))))))"

definition instrumented_model_invoke ::
  "deps \<Rightarrow> response py_method \<Rightarrow> tracer \<Rightarrow> response py_method" where
  "instrumented_model_invoke d fn tr = with_instrumentation d fn tr"

text \<open>\<open>_wrap(tracer, to_wrap)(wrapped, instance, args, kwargs)\<close>, the wrapper around
  \<open>ClientCreator.create_client\<close>.\<close>

definition wrap ::
  "deps \<Rightarrow> tracer \<Rightarrow> pyval \<Rightarrow> client py_method \<Rightarrow> pyval \<Rightarrow> client py_method" where
  "wrap d tr to_wrap wrapped instance w args kwargs =
     (if truthy (get_value (ctx w) (SUPPRESS_INSTRUMENTATION_KEY d)) then wrapped w args kwargs
      else if dict_get kwargs ''service_name'' = PStr ''bedrock-runtime'' then
        bind_res (wrapped w args kwargs) (\<lambda>cl.
        pure (cl\<lparr>invoke_model := instrumented_model_invoke d (invoke_model cl) tr\<rparr>))
      else wrapped w args kwargs)"

section \<open>The content-tracing condition as the specification words it\<close>

text \<open>Two characters are the same letter up to case when they are equal or one is the
  capital of the other; two strings are equal case-insensitively when they agree so,
  character by character.\<close>

definition upper_char :: "char \<Rightarrow> char" where
  "upper_char c =
     (let n = (of_char c :: nat) in if 97 \<le> n \<and> n \<le> 122 then char_of (n - 32) else c)"

fun ci_equal :: "string \<Rightarrow> string \<Rightarrow> bool" where
  "ci_equal [] [] = True"
| "ci_equal (a # as) (b # bs) =
     ((a = b \<or> upper_char a = b \<or> a = upper_char b) \<and> ci_equal as bs)"
| "ci_equal _ _ = False"

text \<open>Content tracing is enabled, in the specification's words, when the variable
  TRACELOOP_TRACE_CONTENT is unset or case-insensitively equal to "true", or when the
  context value override_enable_content_tracing is set (read as: holds a true value).\<close>

definition content_tracing_enabled_spec :: "world \<Rightarrow> bool" where
  "content_tracing_enabled_spec w =
     ((case environ w ''TRACELOOP_TRACE_CONTENT'' of
         None \<Rightarrow> True
       | Some s \<Rightarrow> ci_equal s ''true'')
      \<or> truthy (get_value (ctx w) ''override_enable_content_tracing''))"

section \<open>Sample inputs\<close>

text \<open>Concrete values on which the model is run below: the attribute names of the
  semantic conventions, a parser that knows two documents (both are ASCII, so the parse of
  the text and of its bytes agree), a request for a Cohere model,
  and a service that answers it with a body delivered in two chunks.\<close>

definition sample_loads :: "string \<Rightarrow> py_error + pyval" where
  "sample_loads s =
     (if s = ''{\"prompt\": \"Hi\", \"p\": 1, \"temperature\": 0.5, \"max_tokens\": 20}''
      then Inr (PDict [(''prompt'', PStr ''Hi''), (''p'', PInt 1),
                       (''temperature'', PFloat 0x3FE0000000000000),
                       (''max_tokens'', PInt 20)])
      else if s = ''{\"generations\": [{\"text\": \"Hello\"}]}''
      then Inr (PDict [(''generations'', PList [PDict [(''text'', PStr ''Hello'')]])])
      else Inl JSONDecodeError)"

definition sample_deps :: deps where
  "sample_deps =
     \<lparr>LLM_VENDOR = ''llm.vendor'',
      LLM_REQUEST_MODEL = ''llm.request.model'',
      LLM_REQUEST_TYPE = ''llm.request.type'',
      LLM_TOP_P = ''llm.top_p'',
      LLM_TEMPERATURE = ''llm.temperature'',
      LLM_REQUEST_MAX_TOKENS = ''llm.request.max_tokens'',
      LLM_PROMPTS = ''llm.prompts'',
      LLM_COMPLETIONS = ''llm.completions'',
      COMPLETION_value = ''completion'',
      SUPPRESS_INSTRUMENTATION_KEY = ''suppress_instrumentation'',
      loads = sample_loads,
      loads_str = sample_loads\<rparr>"

definition sample_kwargs :: kwargs where
  "sample_kwargs =
     [(''modelId'', PStr ''cohere.command-text-v14''),
      (''body'',
       PStr ''{\"prompt\": \"Hi\", \"p\": 1, \"temperature\": 0.5, \"max_tokens\": 20}''),
      (''accept'', PStr ''application/json'')]"

definition sample_response :: response where
  "sample_response =
     \<lparr>body = Some [''{\"generations\": '', ''[{\"text\": \"Hello\"}]}''],
      entries = [(''contentType'', PStr ''application/json'')]\<rparr>"

definition sample_service :: "pyval list \<Rightarrow> kwargs \<Rightarrow> py_error + response" where
  "sample_service args kwargs = Inr sample_response"

definition failing_service :: "pyval list \<Rightarrow> kwargs \<Rightarrow> py_error + response" where
  "failing_service args kwargs = Inl (ClientError ''ThrottlingException'')"

definition recording_tracer :: tracer where
  "recording_tracer = \<lparr>sampler = (\<lambda>name kind. True)\<rparr>"

definition silent_tracer :: tracer where
  "silent_tracer = \<lparr>sampler = (\<lambda>name kind. False)\<rparr>"

definition default_world :: world where
  "default_world = \<lparr>environ = Map.empty, ctx = Map.empty\<rparr>"

definition sample_client :: client where
  "sample_client =
     \<lparr>invoke_model = client_method sample_service, attributes = []\<rparr>"

definition sample_create_client :: "client py_method" where
  "sample_create_client w args kwargs = (Inr sample_client, [])"

text \<open>Worlds with the content variable set, with the variable set to the empty string,
  and with instrumentation suppressed; keyword arguments of two client creations.\<close>

definition tracing_world :: world where
  "tracing_world = \<lparr>environ = [''TRACELOOP_TRACE_CONTENT'' \<mapsto> ''TRUE''], ctx = Map.empty\<rparr>"

definition empty_setting_world :: world where
  "empty_setting_world = \<lparr>environ = [''TRACELOOP_TRACE_CONTENT'' \<mapsto> []], ctx = Map.empty\<rparr>"

definition suppressed_world :: world where
  "suppressed_world =
     \<lparr>environ = Map.empty, ctx = [''suppress_instrumentation'' \<mapsto> PBool True]\<rparr>"

definition bedrock_kwargs :: kwargs where
  "bedrock_kwargs = [(''service_name'', PStr ''bedrock-runtime'')]"

definition s3_kwargs :: kwargs where
  "s3_kwargs = [(''service_name'', PStr ''s3'')]"

section \<open>Basic facts\<close>

lemma get_body_loop_Some: "get_body_loop (Some b) chunks = Some (b @ concat chunks)"
  by (induction chunks arbitrary: b) simp_all

lemma get_body_loop_None:
  "get_body_loop None chunks = (if chunks = [] then None else Some (concat chunks))"
  by (cases chunks) (simp_all add: get_body_loop_Some)

lemma load_global_modelId: "load_global ''modelId'' = Inl (NameError ''modelId'')"
  by (simp add: load_global_def module_names_def)

lemma bind_res_lift_Inl: "bind_res (lift (Inl e)) f = (Inl e, [])"
  by (simp add: bind_res_def lift_def)

lemma bind_res_lift_Inr: "bind_res (lift (Inr x)) f = f x"
  by (simp add: bind_res_def lift_def split: prod.splits)

lemma bind_res_pair_Inl: "bind_res (Inl e, evs) f = (Inl e, evs)"
  by (simp add: bind_res_def)

lemma bind_res_pair_Inr: "bind_res (Inr x, evs) f = (fst (f x), evs @ snd (f x))"
  by (simp add: bind_res_def split: prod.splits)

lemma then_res_pure: "then_res (pure ()) n = n"
  by (simp add: then_res_def pure_def bind_res_def split: prod.splits)

lemma with_span_pair:
  "with_span tr name kind block =
     (fst (block \<lparr>is_recording = sampler tr name kind\<rparr>),
      SpanStart name kind # snd (block \<lparr>is_recording = sampler tr name kind\<rparr>) @ [SpanEnd])"
  by (simp add: with_span_def split: prod.splits)

lemma with_instrumentation_outcome:
  "with_instrumentation d fn tr w args kwargs =
     ((case fst (fn w args kwargs) of
         Inl e \<Rightarrow> Inl e
       | Inr resp \<Rightarrow>
           (case json_loads d (dict_get kwargs ''body'') of
              Inl e \<Rightarrow> Inl e
            | Inr request_body \<Rightarrow>
                (case fst (get_body d resp (dict_get kwargs ''accept'')) of
                   Inl e \<Rightarrow> Inl e
                 | Inr response_body \<Rightarrow>
                     if sampler tr ''bedrock.completion'' CLIENT
                     then Inl (NameError ''modelId'')
                     else Inr (snd (get_body d resp (dict_get kwargs ''accept'')))))),
      SpanStart ''bedrock.completion'' CLIENT # snd (fn w args kwargs) @ [SpanEnd])"
proof (cases "fn w args kwargs")
  case (Pair r evs)
  show ?thesis
  proof (cases r)
    case (Inl e)
    with Pair show ?thesis
      by (simp add: with_instrumentation_def with_span_pair bind_res_pair_Inl)
  next
    case (Inr resp)
    note resp = Inr
    show ?thesis
    proof (cases "json_loads d (dict_get kwargs ''body'')")
      case (Inl e)
      with Pair resp show ?thesis
        by (simp add: with_instrumentation_def with_span_pair bind_res_pair_Inr
            bind_res_lift_Inl)
    next
      case (Inr request_body)
      note rq = Inr
      obtain rb resp' where gb: "get_body d resp (dict_get kwargs ''accept'') = (rb, resp')"
        by (cases "get_body d resp (dict_get kwargs ''accept'')")
      show ?thesis
      proof (cases rb)
        case (Inl e)
        with Pair resp rq gb show ?thesis
          by (simp add: with_instrumentation_def with_span_pair bind_res_pair_Inr
              bind_res_lift_Inl bind_res_lift_Inr)
      next
        case (Inr response_body)
        with Pair resp rq gb show ?thesis
          by (simp add: with_instrumentation_def with_span_pair bind_res_pair_Inr
              bind_res_lift_Inl bind_res_lift_Inr load_global_modelId then_res_def pure_def)
      qed
    qed
  qed
qed


lemma get_body_stream:
  "body resp = Some chunks \<Longrightarrow>
   get_body d resp ct =
     (if ct = PStr ''application/json''
      then (if chunks = [] then Inl TypeError else loads d (concat chunks))
      else Inr PNone,
      resp\<lparr>body := Some []\<rparr>)"
  by (simp add: get_body_def get_body_loop_None Let_def)

lemma get_body_no_stream: "body resp = None \<Longrightarrow> get_body d resp ct = (Inl AttributeError, resp)"
  by (simp add: get_body_def)

lemma get_body_Inr:
  assumes "fst (get_body d resp ct) = Inr v"
  shows "body resp \<noteq> None \<and> snd (get_body d resp ct) = resp\<lparr>body := Some []\<rparr>"
proof (cases "body resp")
  case None
  with assms show ?thesis by (simp add: get_body_no_stream)
next
  case (Some chunks)
  then show ?thesis by (simp add: get_body_stream)
qed

lemma sample_get_body:
  "get_body sample_deps sample_response (PStr ''application/json'') =
     (Inr (PDict [(''generations'', PList [PDict [(''text'', PStr ''Hello'')]])]),
      sample_response\<lparr>body := Some []\<rparr>)"
  by (simp add: get_body_stream [of _ "[''{\"generations\": '', ''[{\"text\": \"Hello\"}]}'']"]
      sample_response_def sample_deps_def sample_loads_def)

lemma sample_request_body:
  "json_loads sample_deps (dict_get sample_kwargs ''body'') =
     Inr (PDict [(''prompt'', PStr ''Hi''), (''p'', PInt 1),
                 (''temperature'', PFloat 0x3FE0000000000000), (''max_tokens'', PInt 20)])"
  by (simp add: sample_kwargs_def dict_get_def sample_deps_def sample_loads_def)

lemma sample_accept: "dict_get sample_kwargs ''accept'' = PStr ''application/json''"
  by (simp add: sample_kwargs_def dict_get_def)

lemma sample_outcome_recording:
  "with_instrumentation sample_deps (client_method sample_service) recording_tracer w []
     sample_kwargs =
   (Inl (NameError ''modelId''),
    [SpanStart ''bedrock.completion'' CLIENT, ClientCall [] sample_kwargs, SpanEnd])"
  by (simp add: with_instrumentation_outcome client_method_def sample_service_def
      sample_request_body sample_accept sample_get_body recording_tracer_def)

lemma sample_outcome_silent:
  "with_instrumentation sample_deps (client_method sample_service) silent_tracer w []
     sample_kwargs =
   (Inr (sample_response\<lparr>body := Some []\<rparr>),
    [SpanStart ''bedrock.completion'' CLIENT, ClientCall [] sample_kwargs, SpanEnd])"
  by (simp add: with_instrumentation_outcome client_method_def sample_service_def
      sample_request_body sample_accept sample_get_body silent_tracer_def)

lemma model_id_unpack_fails:
  "unpack2 (dict_get sample_kwargs ''modelId'') = Inl ValueError"
  by (simp add: unpack2_def sample_kwargs_def dict_get_def)

lemma lower_TRUE: "map lower_char ''TRUE'' = ''true''"
  by (simp add: lower_char_def char_of_def bit_0)

lemma wrap_bedrock_runtime:
  "\<not> truthy (get_value (ctx w) (SUPPRESS_INSTRUMENTATION_KEY d)) \<Longrightarrow>
   dict_get kwargs ''service_name'' = PStr ''bedrock-runtime'' \<Longrightarrow>
   wrapped w args kwargs = (Inr cl, evs) \<Longrightarrow>
   wrap d tr to_wrap wrapped instance w args kwargs =
     (Inr (cl\<lparr>invoke_model := with_instrumentation d (invoke_model cl) tr\<rparr>), evs)"
  by (simp add: wrap_def bind_res_pair_Inr pure_def instrumented_model_invoke_def)

lemma lower_char_t:
  "lower_char a = CHR ''t'' \<longleftrightarrow>
     (a = CHR ''t'' \<or> upper_char a = CHR ''t'' \<or> a = upper_char (CHR ''t''))"
  by (cases a) (auto simp: lower_char_def upper_char_def Let_def char_of_def bit_0)

lemma lower_char_r:
  "lower_char a = CHR ''r'' \<longleftrightarrow>
     (a = CHR ''r'' \<or> upper_char a = CHR ''r'' \<or> a = upper_char (CHR ''r''))"
  by (cases a) (auto simp: lower_char_def upper_char_def Let_def char_of_def bit_0)

lemma lower_char_u:
  "lower_char a = CHR ''u'' \<longleftrightarrow>
     (a = CHR ''u'' \<or> upper_char a = CHR ''u'' \<or> a = upper_char (CHR ''u''))"
  by (cases a) (auto simp: lower_char_def upper_char_def Let_def char_of_def bit_0)

lemma lower_char_e:
  "lower_char a = CHR ''e'' \<longleftrightarrow>
     (a = CHR ''e'' \<or> upper_char a = CHR ''e'' \<or> a = upper_char (CHR ''e''))"
  by (cases a) (auto simp: lower_char_def upper_char_def Let_def char_of_def bit_0)

lemma ci_equal_Nil: "ci_equal s [] \<longleftrightarrow> s = []"
  by (cases s) simp_all

lemma ci_equal_Cons:
  "ci_equal s (b # bs) \<longleftrightarrow>
     (\<exists>a as. s = a # as \<and> (a = b \<or> upper_char a = b \<or> a = upper_char b) \<and> ci_equal as bs)"
  by (cases s) simp_all

lemma lower_eq_true: "map lower_char s = ''true'' \<longleftrightarrow> ci_equal s ''true''"
  by (simp only: ci_equal_Cons ci_equal_Nil map_eq_Cons_conv map_is_Nil_conv
      lower_char_t lower_char_r lower_char_u lower_char_e)

lemma lower_true: "map lower_char ''true'' = ''true''"
  by (simp add: lower_char_def)

lemma should_send_prompts_unset:
  "environ w ''TRACELOOP_TRACE_CONTENT'' = None \<Longrightarrow> should_send_prompts w = Inr (PBool True)"
  by (simp add: should_send_prompts_def getenv_def py_or_def lower_true [simplified])

lemma should_send_prompts_empty:
  "environ w ''TRACELOOP_TRACE_CONTENT'' = Some [] \<Longrightarrow>
   should_send_prompts w = Inr (PBool True)"
  by (simp add: should_send_prompts_def getenv_def py_or_def lower_true [simplified])

lemma should_send_prompts_set:
  "environ w ''TRACELOOP_TRACE_CONTENT'' = Some s \<Longrightarrow> s \<noteq> [] \<Longrightarrow>
   should_send_prompts w =
     Inr (if ci_equal s ''true'' then PBool True
          else get_value (ctx w) ''override_enable_content_tracing'')"
  by (simp add: should_send_prompts_def getenv_def py_or_def lower_eq_true [symmetric])

text \<open>The condition \<open>should_send_prompts()\<close> itself: it never raises, and its value is true
  exactly when TRACELOOP_TRACE_CONTENT is unset, empty or case-insensitively equal to
  "true", or the context value override_enable_content_tracing holds a true value. The
  empty setting is where it differs from the specification's wording of the condition.\<close>

lemma should_send_prompts_enabled_iff:
  "\<exists>v. should_send_prompts w = Inr v \<and>
     (truthy v \<longleftrightarrow>
        (case environ w ''TRACELOOP_TRACE_CONTENT'' of
           None \<Rightarrow> True
         | Some s \<Rightarrow> s = [] \<or> ci_equal s ''true'')
        \<or> truthy (get_value (ctx w) ''override_enable_content_tracing''))"
proof (cases "environ w ''TRACELOOP_TRACE_CONTENT''")
  case None
  then show ?thesis by (simp add: should_send_prompts_unset)
next
  case (Some s)
  show ?thesis
  proof (cases "s = []")
    case True
    with Some show ?thesis by (simp add: should_send_prompts_empty)
  next
    case False
    with Some show ?thesis by (simp add: should_send_prompts_set)
  qed
qed

lemma should_send_prompts_empty_setting:
  "should_send_prompts empty_setting_world = Inr (PBool True) \<and>
   \<not> content_tracing_enabled_spec empty_setting_world"
  by (simp add: should_send_prompts_empty content_tracing_enabled_spec_def
      empty_setting_world_def get_value_def)

section \<open>Properties of the instrumentation\<close>

text \<open>
  Claim C4. \<open>_get_body\<close> joins the chunks of a streamed body, in order, into one buffer
  (which stays \<open>None\<close> when the stream delivers no chunk, so that the parser raises a
  TypeError then); the result is the JSON parse of that buffer when the accept content type
  is "application/json", and \<open>None\<close> for "application/xml" and for every other type.
\<close>

theorem get_body_reassembles:
  "body resp = Some chunks \<Longrightarrow>
   get_body_loop None chunks = (if chunks = [] then None else Some (concat chunks)) \<and>
   fst (get_body d resp ct) =
     (if ct = PStr ''application/json''
      then (if chunks = [] then Inl TypeError else loads d (concat chunks))
      else Inr PNone)"
  by (simp add: get_body_stream get_body_loop_None)

theorem get_body_reassembles_witness:
  "body sample_response = Some [''{\"generations\": '', ''[{\"text\": \"Hello\"}]}''] \<and>
   get_body_loop None [''{\"generations\": '', ''[{\"text\": \"Hello\"}]}''] =
     Some ''{\"generations\": [{\"text\": \"Hello\"}]}'' \<and>
   fst (get_body sample_deps sample_response (PStr ''application/json'')) =
     Inr (PDict [(''generations'', PList [PDict [(''text'', PStr ''Hello'')]])]) \<and>
   fst (get_body sample_deps sample_response (PStr ''application/xml'')) = Inr PNone \<and>
   fst (get_body sample_deps sample_response (PStr ''text/plain'')) = Inr PNone"
proof -
  have b: "body sample_response = Some [''{\"generations\": '', ''[{\"text\": \"Hello\"}]}'']"
    by (simp add: sample_response_def)
  show ?thesis
    using b get_body_reassembles [OF b, of sample_deps "PStr ''application/json''"]
      get_body_reassembles [OF b, of sample_deps "PStr ''application/xml''"]
      get_body_reassembles [OF b, of sample_deps "PStr ''text/plain''"]
    by (simp add: sample_deps_def sample_loads_def)
qed

text \<open>
  Claim C2. Every call of the instrumented \<open>invoke_model\<close> starts one span, named
  "bedrock.completion" and of kind CLIENT, performs what the wrapped method performs, once,
  and ends the span; around an uninstrumented client this is one span around one client
  call, whatever the outcome of the call.
\<close>

theorem one_span_around_client_call:
  "snd (with_instrumentation d fn tr w args kwargs) =
     SpanStart ''bedrock.completion'' CLIENT # snd (fn w args kwargs) @ [SpanEnd] \<and>
   snd (with_instrumentation d (client_method service) tr w args kwargs) =
     [SpanStart ''bedrock.completion'' CLIENT, ClientCall args kwargs, SpanEnd]"
  by (simp add: with_instrumentation_outcome client_method_def)

text \<open>
  Claim C5. When the wrapped client call raises an error, the instrumented call raises that
  same error: it is neither replaced nor wrapped.
\<close>

theorem client_error_passes_through:
  "fst (fn w args kwargs) = Inl e \<Longrightarrow>
   fst (with_instrumentation d fn tr w args kwargs) = Inl e"
  by (simp add: with_instrumentation_outcome)

theorem client_error_passes_through_witness:
  "fst (client_method failing_service default_world [] sample_kwargs) =
     Inl (ClientError ''ThrottlingException'') \<and>
   fst (with_instrumentation sample_deps (client_method failing_service) recording_tracer
          default_world [] sample_kwargs) = Inl (ClientError ''ThrottlingException'')"
proof -
  have f: "fst (client_method failing_service default_world [] sample_kwargs) =
      Inl (ClientError ''ThrottlingException'')"
    by (simp add: client_method_def failing_service_def)
  from f client_error_passes_through
      [of "client_method failing_service" default_world "[]" sample_kwargs
          "ClientError ''ThrottlingException''" sample_deps recording_tracer]
  show ?thesis by simp
qed

text \<open>
  Claim C1. A call whose span records should tag the span with the vendor and the model of
  the request's \<open>modelId\<close>. The code does not get there: when the client call, the parse of
  the request body and the re-assembly of the response succeed and the span records, the
  test \<open>span.is_recording() and modelId\<close> reads the unbound global \<open>modelId\<close>, the call
  raises NameError, and the span carries no attribute (the trace holds the span's start,
  the wrapped method's actions and the span's end, nothing else).
\<close>

theorem recorded_call_raises_NameError:
  "sampler tr ''bedrock.completion'' CLIENT \<Longrightarrow>
   fst (fn w args kwargs) = Inr resp \<Longrightarrow>
   json_loads d (dict_get kwargs ''body'') = Inr request_body \<Longrightarrow>
   fst (get_body d resp (dict_get kwargs ''accept'')) = Inr response_body \<Longrightarrow>
   with_instrumentation d fn tr w args kwargs =
     (Inl (NameError ''modelId''),
      SpanStart ''bedrock.completion'' CLIENT # snd (fn w args kwargs) @ [SpanEnd])"
  by (simp add: with_instrumentation_outcome)

theorem recorded_call_raises_NameError_witness:
  "sampler recording_tracer ''bedrock.completion'' CLIENT \<and>
   fst (client_method sample_service default_world [] sample_kwargs) = Inr sample_response \<and>
   with_instrumentation sample_deps (client_method sample_service) recording_tracer
     default_world [] sample_kwargs =
     (Inl (NameError ''modelId''),
      [SpanStart ''bedrock.completion'' CLIENT, ClientCall [] sample_kwargs, SpanEnd])"
proof -
  have s: "sampler recording_tracer ''bedrock.completion'' CLIENT"
    by (simp add: recording_tracer_def)
  have f: "fst (client_method sample_service default_world [] sample_kwargs) =
      Inr sample_response"
    by (simp add: client_method_def sample_service_def)
  have g: "fst (get_body sample_deps sample_response (dict_get sample_kwargs ''accept'')) =
      Inr (PDict [(''generations'', PList [PDict [(''text'', PStr ''Hello'')]])])"
    by (simp add: sample_accept sample_get_body)
  from recorded_call_raises_NameError
    [of recording_tracer "client_method sample_service" default_world "[]" sample_kwargs
       sample_response sample_deps, OF s f sample_request_body g]
  show ?thesis using s f by (simp add: client_method_def)
qed

text \<open>
  Claim C3. With prompt tracing enabled and a recording span, the prompt and the completions
  should be set on the span. On the sample request (tracing enabled through the
  environment) the call raises NameError instead and sets no attribute.
\<close>

theorem prompt_and_completions_not_recorded:
  "should_send_prompts tracing_world = Inr (PBool True) \<and>
   sampler recording_tracer ''bedrock.completion'' CLIENT \<and>
   with_instrumentation sample_deps (client_method sample_service) recording_tracer
     tracing_world [] sample_kwargs =
     (Inl (NameError ''modelId''),
      [SpanStart ''bedrock.completion'' CLIENT, ClientCall [] sample_kwargs, SpanEnd])"
proof -
  have "should_send_prompts tracing_world = Inr (PBool True)"
    by (simp add: should_send_prompts_def tracing_world_def getenv_def py_or_def
        get_value_def lower_TRUE [simplified])
  moreover have "sampler recording_tracer ''bedrock.completion'' CLIENT"
    by (simp add: recording_tracer_def)
  ultimately show ?thesis by (simp add: sample_outcome_recording)
qed

text \<open>
  Claim C6. For a Cohere request and a recording span, the request type, top-p, temperature
  and max-token attributes should be set from the request body. On the sample Cohere request
  the call raises NameError instead and sets no attribute.
\<close>

theorem vendor_attributes_not_recorded:
  "dict_get sample_kwargs ''modelId'' = PStr ''cohere.command-text-v14'' \<and>
   sampler recording_tracer ''bedrock.completion'' CLIENT \<and>
   with_instrumentation sample_deps (client_method sample_service) recording_tracer
     default_world [] sample_kwargs =
     (Inl (NameError ''modelId''),
      [SpanStart ''bedrock.completion'' CLIENT, ClientCall [] sample_kwargs, SpanEnd])"
proof -
  have "dict_get sample_kwargs ''modelId'' = PStr ''cohere.command-text-v14''"
    by (simp add: sample_kwargs_def dict_get_def)
  moreover have "sampler recording_tracer ''bedrock.completion'' CLIENT"
    by (simp add: recording_tracer_def)
  ultimately show ?thesis by (simp add: sample_outcome_recording)
qed

text \<open>
  Claim C7. A successful instrumented call should hand the caller the response the client
  gave, streamed body included. It returns the client's response object after
  \<open>_get_body\<close> has iterated its body: the body has no chunk left to deliver.
\<close>

theorem returned_response_is_drained:
  "fst (with_instrumentation d fn tr w args kwargs) = Inr r \<Longrightarrow>
   \<exists>r0. fst (fn w args kwargs) = Inr r0 \<and> body r0 \<noteq> None \<and> r = r0\<lparr>body := Some []\<rparr>"
proof -
  assume ok: "fst (with_instrumentation d fn tr w args kwargs) = Inr r"
  then obtain r0 where r0: "fst (fn w args kwargs) = Inr r0"
    by (cases "fst (fn w args kwargs)") (simp_all add: with_instrumentation_outcome)
  from ok r0 obtain rq where rq: "json_loads d (dict_get kwargs ''body'') = Inr rq"
    by (cases "json_loads d (dict_get kwargs ''body'')")
      (simp_all add: with_instrumentation_outcome)
  from ok r0 rq obtain rb where rb: "fst (get_body d r0 (dict_get kwargs ''accept'')) = Inr rb"
    by (cases "fst (get_body d r0 (dict_get kwargs ''accept''))")
      (simp_all add: with_instrumentation_outcome)
  from ok r0 rq rb have "r = snd (get_body d r0 (dict_get kwargs ''accept''))"
    by (simp add: with_instrumentation_outcome split: if_splits)
  with get_body_Inr [OF rb] r0 show ?thesis by simp
qed

theorem returned_response_is_drained_witness:
  "fst (with_instrumentation sample_deps (client_method sample_service) silent_tracer
          default_world [] sample_kwargs) = Inr (sample_response\<lparr>body := Some []\<rparr>) \<and>
   fst (client_method sample_service default_world [] sample_kwargs) = Inr sample_response \<and>
   body sample_response = Some [''{\"generations\": '', ''[{\"text\": \"Hello\"}]}''] \<and>
   body (sample_response\<lparr>body := Some []\<rparr>) = Some []"
proof -
  have ok: "fst (with_instrumentation sample_deps (client_method sample_service) silent_tracer
      default_world [] sample_kwargs) = Inr (sample_response\<lparr>body := Some []\<rparr>)"
    by (simp add: sample_outcome_silent)
  from returned_response_is_drained [OF ok] ok show ?thesis
    by (simp add: client_method_def sample_service_def sample_response_def)
qed

text \<open>
  Claim C8. Prompt and completion contents should be recorded whenever content tracing is
  enabled, and so by default. With no TRACELOOP_TRACE_CONTENT variable and no override the
  condition holds, in the specification's words and as \<open>should_send_prompts()\<close> computes
  it, but the recorded call on the sample request raises NameError before the condition is
  consulted, and no attribute is set.
\<close>

theorem content_not_recorded_by_default:
  "environ default_world ''TRACELOOP_TRACE_CONTENT'' = None \<and>
   ctx default_world ''override_enable_content_tracing'' = None \<and>
   content_tracing_enabled_spec default_world \<and>
   should_send_prompts default_world = Inr (PBool True) \<and>
   sampler recording_tracer ''bedrock.completion'' CLIENT \<and>
   dict_get sample_kwargs ''accept'' = PStr ''application/json'' \<and>
   with_instrumentation sample_deps (client_method sample_service) recording_tracer
     default_world [] sample_kwargs =
     (Inl (NameError ''modelId''),
      [SpanStart ''bedrock.completion'' CLIENT, ClientCall [] sample_kwargs, SpanEnd])"
proof -
  have "environ default_world ''TRACELOOP_TRACE_CONTENT'' = None"
    and "ctx default_world ''override_enable_content_tracing'' = None"
    by (simp_all add: default_world_def)
  moreover have "content_tracing_enabled_spec default_world"
    by (simp add: content_tracing_enabled_spec_def default_world_def)
  moreover have "should_send_prompts default_world = Inr (PBool True)"
    by (simp add: should_send_prompts_unset default_world_def)
  moreover have "sampler recording_tracer ''bedrock.completion'' CLIENT"
    by (simp add: recording_tracer_def)
  ultimately show ?thesis by (simp add: sample_outcome_recording sample_accept)
qed

text \<open>
  Claim C9. When the suppress-instrumentation key holds a true value in the context, the
  wrapper around \<open>create_client\<close> is the wrapped call itself: the same outcome, the same
  actions (so no span), and the client as it was created, its \<open>invoke_model\<close> untouched.
\<close>

theorem wrap_suppressed:
  "truthy (get_value (ctx w) (SUPPRESS_INSTRUMENTATION_KEY d)) \<Longrightarrow>
   wrap d tr to_wrap wrapped instance w args kwargs = wrapped w args kwargs"
  by (simp add: wrap_def)

theorem wrap_suppressed_witness:
  "truthy (get_value (ctx suppressed_world) (SUPPRESS_INSTRUMENTATION_KEY sample_deps)) \<and>
   dict_get bedrock_kwargs ''service_name'' = PStr ''bedrock-runtime'' \<and>
   wrap sample_deps recording_tracer PNone sample_create_client PNone suppressed_world []
     bedrock_kwargs = (Inr sample_client, [])"
proof -
  have t: "truthy (get_value (ctx suppressed_world) (SUPPRESS_INSTRUMENTATION_KEY sample_deps))"
    by (simp add: suppressed_world_def sample_deps_def get_value_def)
  from wrap_suppressed [OF t, of recording_tracer PNone sample_create_client PNone "[]"
      bedrock_kwargs] t
  show ?thesis by (simp add: sample_create_client_def bedrock_kwargs_def dict_get_def)
qed

text \<open>
  Claim C10. When the \<open>service_name\<close> keyword argument is not "bedrock-runtime", the
  wrapper around \<open>create_client\<close> returns exactly what the wrapped call returns.
\<close>

theorem wrap_other_service:
  "dict_get kwargs ''service_name'' \<noteq> PStr ''bedrock-runtime'' \<Longrightarrow>
   wrap d tr to_wrap wrapped instance w args kwargs = wrapped w args kwargs"
  by (simp add: wrap_def)

theorem wrap_other_service_witness:
  "dict_get s3_kwargs ''service_name'' \<noteq> PStr ''bedrock-runtime'' \<and>
   wrap sample_deps recording_tracer PNone sample_create_client PNone default_world []
     s3_kwargs = (Inr sample_client, [])"
proof -
  have n: "dict_get s3_kwargs ''service_name'' \<noteq> PStr ''bedrock-runtime''"
    by (simp add: s3_kwargs_def dict_get_def)
  from wrap_other_service [OF n, of sample_deps recording_tracer PNone sample_create_client
      PNone default_world "[]"] n
  show ?thesis by (simp add: sample_create_client_def)
qed

end
